theory Spec2Isabelle
  imports Main "HOL-Library.Sublist"
begin

section \<open>Strings and the built-ins the session manager calls\<close>

text \<open>
  A JavaScript string is a sequence of UTF-16 code units and \<^verbatim>\<open>.length\<close> counts them.
  Here a string is a \<^typ>\<open>string\<close>: a list of code units below 256, which covers every
  literal of the program. \<^verbatim>\<open>String.prototype.trim\<close> strips white space and line
  terminators from both ends; below 256 these are TAB, LF, VT, FF, CR, SP and NBSP.
\<close>

definition is_js_whitespace :: "char \<Rightarrow> bool" where
  "is_js_whitespace c =
     (c \<in> {CHR 0x09, CHR 0x0A, CHR 0x0B, CHR 0x0C, CHR 0x0D, CHR 0x20, CHR 0xA0})"

definition js_trim :: "string \<Rightarrow> string" where
  "js_trim s = rev (dropWhile is_js_whitespace (rev (dropWhile is_js_whitespace s)))"

text \<open>
  \<^verbatim>\<open>JSON.stringify\<close> of a string (QuoteJSONString of ECMA-262): the two-character
  escapes, \<^verbatim>\<open>\u00XX\<close> for the other control characters, everything else as it is.
\<close>

definition hex_digit :: "nat \<Rightarrow> char" where
  "hex_digit n = ''0123456789abcdef'' ! n"

definition quote_code_unit :: "char \<Rightarrow> string" where
  "quote_code_unit c =
     (if c = CHR 0x08 then [CHR 0x5C, CHR ''b'']
      else if c = CHR 0x09 then [CHR 0x5C, CHR ''t'']
      else if c = CHR 0x0A then [CHR 0x5C, CHR ''n'']
      else if c = CHR 0x0C then [CHR 0x5C, CHR ''f'']
      else if c = CHR 0x0D then [CHR 0x5C, CHR ''r'']
      else if c = CHR 0x22 then [CHR 0x5C, CHR 0x22]
      else if c = CHR 0x5C then [CHR 0x5C, CHR 0x5C]
      else if (of_char c :: nat) < 32
        then [CHR 0x5C, CHR ''u'', CHR ''0'', CHR ''0'',
              hex_digit ((of_char c :: nat) div 16), hex_digit ((of_char c :: nat) mod 16)]
      else [c])"

definition QuoteJSONString :: "string \<Rightarrow> string" where
  "QuoteJSONString s = [CHR 0x22] @ concat (map quote_code_unit s) @ [CHR 0x22]"

section \<open>Messages, sessions and the manager\<close>

text \<open>A message is the object \<^verbatim>\<open>{ role, content }\<close>, its keys in this order.\<close>

record message =
  role :: string
  content :: string

definition JSON_stringify :: "message \<Rightarrow> string" where
  \<open>JSON_stringify msg =
     ''{"role":'' @ QuoteJSONString (role msg) @ '',"content":'' @ QuoteJSONString (content msg) @ ''}''\<close>

text \<open>
  A session is the object \<^verbatim>\<open>createSession\<close> builds; time stamps are the integers
  of \<^verbatim>\<open>Date.now()\<close>.
\<close>

record session =
  messages :: "message list"
  createdAt :: int
  lastAccess :: int
  packetId :: string

text \<open>
  The fields of \<^verbatim>\<open>ChatSessionManager\<close>. The \<^verbatim>\<open>Map\<close> of sessions is a partial
  function from packet ids.
\<close>

record manager =
  sessions :: "string \<rightharpoonup> session"
  ttl :: int
  maxContextTokens :: int
  charsPerToken :: int

definition CHAT_SESSION_TTL :: int where
  "CHAT_SESSION_TTL = 3600000"

text \<open>The constructor; the interval timer it starts is the environment calling the sweep.\<close>

definition ChatSessionManager :: "int \<Rightarrow> manager" where
  "ChatSessionManager t =
     \<lparr>sessions = Map.empty, ttl = t, maxContextTokens = 6000, charsPerToken = 4\<rparr>"

section \<open>Token estimate and trimming\<close>

text \<open>
  \<^verbatim>\<open>Math.ceil(text.length / this.charsPerToken)\<close>: the ceiling of the quotient, written
  with the floor division of \<^typ>\<open>int\<close>. It is the program's value whenever
  \<open>charsPerToken\<close> is not zero (the constructor sets 4).
\<close>

definition estimateTokens :: "manager \<Rightarrow> string \<Rightarrow> int" where
  "estimateTokens m text = - ((- int (length text)) div charsPerToken m)"

definition getTotalTokens :: "manager \<Rightarrow> message list \<Rightarrow> int" where
  "getTotalTokens m msgs =
     fold (\<lambda>msg total. total + estimateTokens m (JSON_stringify msg)) msgs 0"

text \<open>
  The loop of \<^verbatim>\<open>trimToContextWindow\<close>, from the newest message to the oldest: the
  third argument is what is left to visit, newest first; \<open>totalTokens\<close> and
  \<open>trimmedMessages\<close> are the loop's two variables. The \<^verbatim>\<open>break\<close> is the branch that
  returns without a recursive call.
\<close>

fun trim_loop :: "manager \<Rightarrow> int \<Rightarrow> message list \<Rightarrow> int \<Rightarrow> message list \<Rightarrow> message list" where
  "trim_loop m availableTokens [] totalTokens trimmedMessages = trimmedMessages"
| "trim_loop m availableTokens (msg # older) totalTokens trimmedMessages =
     (let msgTokens = estimateTokens m (JSON_stringify msg) in
      if totalTokens + msgTokens \<le> availableTokens
      then trim_loop m availableTokens older (totalTokens + msgTokens) (trimmedMessages @ [msg])
      else trimmedMessages)"

definition trimToContextWindow :: "manager \<Rightarrow> message list \<Rightarrow> message list" where
  "trimToContextWindow m msgs =
     (if msgs = [] then msgs
      else
        let systemPrompt = hd msgs;
            otherMessages = tl msgs;
            systemTokens = estimateTokens m (JSON_stringify systemPrompt);
            availableTokens = maxContextTokens m - systemTokens - 500
        in if systemTokens > maxContextTokens m - 500 then [systemPrompt]
           else
             let trimmedMessages = trim_loop m availableTokens (rev otherMessages) 0 [systemPrompt]
             in systemPrompt # rev (tl trimmedMessages))"

section \<open>The two system prompts\<close>

text \<open>
  Both are template literals that open and close with a line break, so each line of the
  source is preceded by a line feed and one more line feed ends the text.
\<close>

definition SYSTEM_PROMPT :: string where
  \<open>SYSTEM_PROMPT =
     concat (map (\<lambda>line. CHR 0x0A # line)
       [
        ''You are a network security analyst. Evaluate ONLY the TARGET PACKET marked in the input. Other packets are context only.'',
        '''',
        ''REQUIRED RESPONSE FORMAT (you MUST include all these fields in this order):'',
        '''',
        ''PACKET_IDENTIFICATION: Evaluating Packet ID: [id], Protocol: [protocol], Source: [src]:[port], Destination: [dst]:[port], Timestamp: [time]'',
        '''',
        ''SEVERITY: [number 0-100]'',
        ''(0 = harmless, 100 = extremely dangerous/threatening)'',
        ''YOU NEED TO PROVIDE SEVERITY AS A PERCENTAGE BETWEEN 0 AND 100 (ONLY THE NUMBER, NO OTHER TEXT)'',
        ''CONFIDENCE: [number 0-100]'',
        ''YOU NEED TO PROVIDE CONFIDENCE AS A PERCENTAGE BETWEEN 0 AND 100 (ONLY THE NUMBER, NO OTHER TEXT)'',
        ''(0 = uncertain, 100 = completely certain)'',
        '''',
        ''DO NOT USE ANY LANGUAGE THAT IS NOT ENGLISH'',
        '''',
        ''RATIONALE: [3-4 sentences justifying your severity and confidence ratings, explaining what the connection might serve, and potential further action]'',
        '''',
        ''CRITICAL REQUIREMENTS:'',
        ''- SEVERITY and CONFIDENCE MUST be the FIRST two fields after PACKET_IDENTIFICATION'',
        ''- Both must be numeric values 0-100 (not words like "low" or "high")'',
        ''- ABSOLUTELY NO MARKDOWN - NO ASTERISKS (*) ANYWHERE in your response'',
        ''- Use plain text only with field names in ALL CAPS followed by a colon''
       ]) @ [CHR 0x0A]\<close>

definition CHAT_SYSTEM_PROMPT :: string where
  \<open>CHAT_SYSTEM_PROMPT =
     concat (map (\<lambda>line. CHR 0x0A # line)
       [
        ''You are a network security analyst helping a user understand a packet evaluation. '',
        ''You have already evaluated a packet and provided an initial assessment.'',
        '''',
        ''CRITICAL RESTRICTION: You MUST ONLY respond to questions about cybersecurity, network security, packet analysis, threat assessment, and related security topics. '',
        '''',
        ''If the user asks about anything unrelated to cybersecurity or network security (e.g., general computing, unrelated topics, personal questions, etc.), politely decline and redirect them to ask about the packet\'s security implications instead.'',
        '''',
        ''The user may ask follow-up questions about:'',
        ''- The packet\'s threat level and why'',
        ''- What the packet might be doing from a security perspective'',
        ''- Security recommendations for further action'',
        ''- Technical security details about the packet'',
        ''- Comparison with other packets from a security standpoint'',
        ''- Potential vulnerabilities or attack vectors'',
        ''- Network security best practices related to this packet'',
        '''',
        ''Answer their questions clearly and concisely, referencing the packet details when relevant.'',
        ''You can reference the initial evaluation if needed, but focus on answering the current question.'',
        '''',
        ''Remember: ONLY answer cybersecurity and network security questions. Decline all other topics.''
       ]) @ [CHR 0x0A]\<close>

section \<open>Operations of the session manager\<close>

text \<open>
  Every method reads the clock; the reading is the argument \<open>now\<close>, one per call. A method
  that mutates the manager returns the manager it leaves behind. A session object lives
  under its own key only, so a mutation of the object is a write under that key.
\<close>

definition getSession :: "manager \<Rightarrow> int \<Rightarrow> string \<Rightarrow> session option \<times> manager" where
  "getSession m now pid =
     (case sessions m pid of
        None \<Rightarrow> (None, m)
      | Some session \<Rightarrow>
          if now - lastAccess session > ttl m
          then (None, m\<lparr>sessions := (sessions m)(pid := None)\<rparr>)
          else (Some session, m))"

definition createSession :: "manager \<Rightarrow> int \<Rightarrow> string \<Rightarrow> string \<Rightarrow> session \<times> manager" where
  "createSession m now pid initialSystemPrompt =
     (let session =
            \<lparr>messages = [\<lparr>role = ''system'', content = js_trim initialSystemPrompt\<rparr>],
             createdAt = now, lastAccess = now, packetId = pid\<rparr>
      in (session, m\<lparr>sessions := (sessions m)(pid \<mapsto> session)\<rparr>))"

text \<open>
  \<^verbatim>\<open>addMessage(packetId, role, content, systemPrompt = null)\<close>. The fourth argument
  is \<open>None\<close> for \<^verbatim>\<open>null\<close>; the empty string is falsy as well, so
  \<^verbatim>\<open>systemPrompt || (...)\<close> takes the default then too.
\<close>

definition addMessage ::
  "manager \<Rightarrow> int \<Rightarrow> string \<Rightarrow> string \<Rightarrow> string \<Rightarrow> string option \<Rightarrow> session \<times> manager" where
  "addMessage m now pid role' content' systemPrompt =
     (let (found, m1) = getSession m now pid;
          (session, m2) =
            (case found of
               Some s \<Rightarrow> (s, m1)
             | None \<Rightarrow>
                 let fallback =
                       (if role' = ''user'' \<and> sessions m1 pid = None
                        then SYSTEM_PROMPT else CHAT_SYSTEM_PROMPT);
                     prompt =
                       (case systemPrompt of
                          None \<Rightarrow> fallback
                        | Some p \<Rightarrow> if p = [] then fallback else p)
                 in createSession m1 now pid prompt);
          session' = session\<lparr>messages := messages session @ [\<lparr>role = role', content = content'\<rparr>],
                             lastAccess := now\<rparr>
      in (session', m2\<lparr>sessions := (sessions m2)(pid \<mapsto> session')\<rparr>))"

text \<open>\<^verbatim>\<open>getMessages\<close> returns \<^verbatim>\<open>null\<close> (\<open>None\<close>) when there is no live session.\<close>

definition getMessages :: "manager \<Rightarrow> int \<Rightarrow> string \<Rightarrow> message list option \<times> manager" where
  "getMessages m now pid =
     (let (found, m1) = getSession m now pid in
      case found of
        None \<Rightarrow> (None, m1)
      | Some session \<Rightarrow>
          let totalTokens = getTotalTokens m1 (messages session) in
          if totalTokens > maxContextTokens m1
          then
            let session' = session\<lparr>messages := trimToContextWindow m1 (messages session)\<rparr>
            in (Some (messages session'), m1\<lparr>sessions := (sessions m1)(pid \<mapsto> session')\<rparr>)
          else (Some (messages session), m1))"

text \<open>
  The sweep visits every entry of the map and deletes the expired ones; deleting the
  entry being visited does not disturb the iteration of a \<^verbatim>\<open>Map\<close>.
\<close>

definition cleanupOldSessions :: "manager \<Rightarrow> int \<Rightarrow> manager" where
  "cleanupOldSessions m now =
     m\<lparr>sessions :=
         (\<lambda>pid. case sessions m pid of
                  None \<Rightarrow> None
                | Some session \<Rightarrow>
                    if now - lastAccess session > ttl m then None else Some session)\<rparr>"

definition clearSession :: "manager \<Rightarrow> string \<Rightarrow> bool \<times> manager" where
  "clearSession m pid =
     (sessions m pid \<noteq> None, m\<lparr>sessions := (sessions m)(pid := None)\<rparr>)"

section \<open>The request handlers that use the manager\<close>

text \<open>
  A handler runs up to its call of the model, and again when the model has answered;
  the two halves are two functions, and other requests and sweeps may run between them.
  The first half ends with a status reply or with the message list posted to the model.
\<close>

datatype reply = BadRequest | NotFound | ServerError | CallModel "message list"

text \<open>
  \<^verbatim>\<open>messages[0] = ...\<close> in the chat handler: \<^verbatim>\<open>messages\<close> is the array of the
  session itself, as \<^verbatim>\<open>getMessages\<close> returned it, so the assignment writes into the
  session.
\<close>

definition assign_first_message :: "manager \<Rightarrow> string \<Rightarrow> message \<Rightarrow> manager" where
  "assign_first_message m pid msg =
     (case sessions m pid of
        None \<Rightarrow> m
      | Some session \<Rightarrow>
          m\<lparr>sessions := (sessions m)(pid \<mapsto> session\<lparr>messages := (messages session)[0 := msg]\<rparr>)\<rparr>)"

text \<open>
  \<^verbatim>\<open>app.post("/api/chat/ask")\<close> up to the call of the model. A second
  \<^verbatim>\<open>getMessages\<close> that returns \<^verbatim>\<open>null\<close> makes \<^verbatim>\<open>messages.length\<close> throw,
  which the handler answers with status 500.
\<close>

definition chat_ask_request :: "manager \<Rightarrow> int \<Rightarrow> string \<Rightarrow> string \<Rightarrow> reply \<times> manager" where
  "chat_ask_request m now pid question =
     (if pid = [] then (BadRequest, m)
      else if question = [] \<or> length (js_trim question) = 0 then (BadRequest, m)
      else
        let (found, m1) = getMessages m now pid in
        case found of
          None \<Rightarrow> (NotFound, m1)
        | Some msgs \<Rightarrow>
            let m2 = (if length msgs = 3
                      then assign_first_message m1 pid
                             \<lparr>role = ''system'', content = js_trim CHAT_SYSTEM_PROMPT\<rparr>
                      else m1);
                (session, m3) = addMessage m2 now pid ''user'' (js_trim question) None;
                (sent, m4) = getMessages m3 now pid
            in case sent of
                 None \<Rightarrow> (ServerError, m4)
               | Some msgs' \<Rightarrow> (CallModel msgs', m4))"

definition chat_ask_response :: "manager \<Rightarrow> int \<Rightarrow> string \<Rightarrow> string \<Rightarrow> manager" where
  "chat_ask_response m now pid response = snd (addMessage m now pid ''assistant'' response None)"

text \<open>
  \<^verbatim>\<open>evaluatePacketWithContext\<close>, the part that touches the manager; \<open>userMessage\<close> is
  the text it has built from the packets. The validation of the answer that follows the
  last \<^verbatim>\<open>addMessage\<close> does not touch the manager.
\<close>

definition evaluate_request :: "manager \<Rightarrow> int \<Rightarrow> string \<Rightarrow> string \<Rightarrow> reply \<times> manager" where
  "evaluate_request m now pid userMessage =
     (let (found, m1) = getMessages m now pid;
          m2 = (case found of
                  None \<Rightarrow>
                    let (session, mc) = createSession m1 now pid SYSTEM_PROMPT;
                        (again, mg) = getMessages mc now pid
                    in mg
                | Some msgs \<Rightarrow> m1);
          (session, m3) = addMessage m2 now pid ''user'' userMessage None;
          (sent, m4) = getMessages m3 now pid
      in case sent of
           None \<Rightarrow> (ServerError, m4)
         | Some msgs' \<Rightarrow> (CallModel msgs', m4))"

definition evaluate_response :: "manager \<Rightarrow> int \<Rightarrow> string \<Rightarrow> string \<Rightarrow> manager" where
  "evaluate_response m now pid response = snd (addMessage m now pid ''assistant'' response None)"

section \<open>Sequences of appends and reads\<close>

text \<open>
  An append is \<^verbatim>\<open>addMessage(packetId, role, content)\<close>, a read is
  \<^verbatim>\<open>getMessages(packetId)\<close>; each comes with the clock reading at its call.
\<close>

datatype operation = Append string string | Read

fun step :: "string \<Rightarrow> manager \<Rightarrow> int \<times> operation \<Rightarrow> manager" where
  "step pid m (now, Append role' content') = snd (addMessage m now pid role' content' None)"
| "step pid m (now, Read) = snd (getMessages m now pid)"

text \<open>The session of \<open>pid\<close> is found alive by every operation of the sequence.\<close>

fun stays_live :: "manager \<Rightarrow> string \<Rightarrow> (int \<times> operation) list \<Rightarrow> bool" where
  "stays_live m pid [] = True"
| "stays_live m pid (timed # rest) =
     (fst (getSession m (fst timed) pid) \<noteq> None \<and> stays_live (step pid m timed) pid rest)"

text \<open>The anchor of a session is the message at index 0 of its history.\<close>

definition anchor :: "manager \<Rightarrow> string \<Rightarrow> message option" where
  "anchor m pid =
     (case sessions m pid of
        None \<Rightarrow> None
      | Some session \<Rightarrow> (case messages session of [] \<Rightarrow> None | a # later \<Rightarrow> Some a))"

text \<open>
  What \<^verbatim>\<open>createSession\<close> establishes for every session it stores: the history
  starts with a message of role \<^verbatim>\<open>system\<close>.
\<close>

definition anchored :: "manager \<Rightarrow> bool" where
  "anchored m =
     (\<forall>pid session. sessions m pid = Some session \<longrightarrow>
        messages session \<noteq> [] \<and> role (hd (messages session)) = ''system'')"

section \<open>Example data\<close>

text \<open>
  A manager with a context window of 610 tokens, so that 60 tokens are left for the
  conversation beside an anchor of 50 tokens and the reserve of 500; a history whose
  messages cost 50, 600, 40 and 20 tokens; and that manager holding the history in a
  session last accessed at time 0.
\<close>

definition small_manager :: manager where
  "small_manager =
     \<lparr>sessions = Map.empty, ttl = CHAT_SESSION_TTL, maxContextTokens = 610, charsPerToken = 4\<rparr>"

definition small_history :: "message list" where
  "small_history =
     [\<lparr>role = ''system'', content = replicate 170 CHR ''s''\<rparr>,
      \<lparr>role = ''user'', content = replicate 2372 CHR ''u''\<rparr>,
      \<lparr>role = ''assistant'', content = replicate 127 CHR ''a''\<rparr>,
      \<lparr>role = ''user'', content = replicate 52 CHR ''q''\<rparr>]"

definition small_store :: manager where
  "small_store =
     small_manager\<lparr>sessions :=
       [''p1'' \<mapsto> \<lparr>messages = small_history, createdAt = 0, lastAccess = 0,
                    packetId = ''p1''\<rparr>]\<rparr>"

text \<open>The manager as the program builds it, and one session created in it at time 0.\<close>

definition fresh_manager :: manager where
  "fresh_manager = ChatSessionManager CHAT_SESSION_TTL"

definition one_session :: manager where
  "one_session = snd (createSession fresh_manager 0 ''p1'' ''S'')"

text \<open>A question of 22000 characters, appended to that session at time 1.\<close>

definition long_question :: string where
  "long_question = replicate 22000 CHR ''a''"

definition long_session :: manager where
  "long_session = snd (addMessage one_session 1 ''p1'' ''user'' long_question None)"

text \<open>
  A packet evaluated once on the program's manager, at times 0 and 1, and the same
  packet evaluated a second time, at times 2 and 3.
\<close>

definition evaluated_once :: manager where
  "evaluated_once =
     evaluate_response
       (snd (evaluate_request fresh_manager 0 ''p1'' ''Evaluate ONLY the TARGET PACKET.''))
       1 ''p1'' ''SEVERITY: 10''"

definition evaluated_twice :: manager where
  "evaluated_twice =
     evaluate_response
       (snd (evaluate_request evaluated_once 2 ''p1'' ''Evaluate ONLY the TARGET PACKET.''))
       3 ''p1'' ''SEVERITY: 20''"

section \<open>Facts about trimming\<close>

lemma fold_add_sum_list:
  "fold (\<lambda>x total. total + f x) xs (a::int) = a + sum_list (map f xs)"
  by (induction xs arbitrary: a) simp_all

lemma getTotalTokens_sum_list:
  "getTotalTokens m msgs = sum_list (map (\<lambda>msg. estimateTokens m (JSON_stringify msg)) msgs)"
  by (simp add: getTotalTokens_def fold_add_sum_list)

lemma getTotalTokens_Cons:
  "getTotalTokens m (x # xs) = estimateTokens m (JSON_stringify x) + getTotalTokens m xs"
  by (simp add: getTotalTokens_sum_list)

lemma getTotalTokens_append:
  "getTotalTokens m (xs @ ys) = getTotalTokens m xs + getTotalTokens m ys"
  by (simp add: getTotalTokens_sum_list)

lemma getTotalTokens_rev:
  "getTotalTokens m (rev xs) = getTotalTokens m xs"
  by (simp add: getTotalTokens_sum_list rev_map [symmetric])

text \<open>The loop keeps a prefix of what it visits, and what it keeps fits.\<close>

lemma trim_loop_take:
  "\<exists>n. trim_loop m a xs t acc = acc @ take n xs
       \<and> (t \<le> a \<longrightarrow> t + getTotalTokens m (take n xs) \<le> a)"
proof (induction xs arbitrary: t acc)
  case Nil
  show ?case by (simp add: getTotalTokens_sum_list)
next
  case (Cons x xs)
  let ?c = "estimateTokens m (JSON_stringify x)"
  show ?case
  proof (cases "t + ?c \<le> a")
    case True
    from Cons.IH [of "t + ?c" "acc @ [x]"] obtain n where
      n: "trim_loop m a xs (t + ?c) (acc @ [x]) = (acc @ [x]) @ take n xs"
         "t + ?c + getTotalTokens m (take n xs) \<le> a"
      using True by blast
    have "trim_loop m a (x # xs) t acc = acc @ take (Suc n) (x # xs)"
      using True n(1) by simp
    moreover have "t + getTotalTokens m (take (Suc n) (x # xs)) \<le> a"
      using n(2) by (simp add: getTotalTokens_Cons)
    ultimately show ?thesis by blast
  next
    case False
    then have "trim_loop m a (x # xs) t acc = acc @ take 0 (x # xs)" by simp
    moreover have "t \<le> a \<longrightarrow> t + getTotalTokens m (take 0 (x # xs)) \<le> a"
      by (simp add: getTotalTokens_sum_list)
    ultimately show ?thesis by blast
  qed
qed

lemma estimateTokens_nonneg:
  "0 < charsPerToken m \<Longrightarrow> 0 \<le> estimateTokens m text"
proof -
  assume pos: "0 < charsPerToken m"
  have "- int (length text) \<le> 0" by simp
  then have "(- int (length text)) div charsPerToken m \<le> 0"
    using pos by (simp add: div_nonpos_pos_le0)
  then show ?thesis by (simp add: estimateTokens_def)
qed

lemma getTotalTokens_nonneg:
  "0 < charsPerToken m \<Longrightarrow> 0 \<le> getTotalTokens m msgs"
proof (induction msgs)
  case Nil
  show ?case by (simp add: getTotalTokens_def)
next
  case (Cons x xs)
  then show ?case
    using estimateTokens_nonneg [of m "JSON_stringify x"] by (simp add: getTotalTokens_Cons)
qed

text \<open>When everything left to visit fits, the loop keeps all of it.\<close>

lemma trim_loop_all:
  "0 < charsPerToken m \<Longrightarrow> t + getTotalTokens m xs \<le> a \<Longrightarrow>
   trim_loop m a xs t acc = acc @ xs"
proof (induction xs arbitrary: t acc)
  case Nil
  show ?case by simp
next
  case (Cons x xs)
  let ?c = "estimateTokens m (JSON_stringify x)"
  from Cons.prems(2) have fits: "t + ?c + getTotalTokens m xs \<le> a"
    by (simp add: getTotalTokens_Cons)
  moreover have "0 \<le> getTotalTokens m xs"
    using Cons.prems(1) by (rule getTotalTokens_nonneg)
  ultimately have here: "t + ?c \<le> a" by linarith
  show ?case
    using here Cons.IH [OF Cons.prems(1) fits, of "acc @ [x]"] by simp
qed

lemma trimToContextWindow_shape:
  assumes "msgs \<noteq> []"
  shows "\<exists>n. trimToContextWindow m msgs = hd msgs # drop n (tl msgs)
           \<and> (estimateTokens m (JSON_stringify (hd msgs)) \<le> maxContextTokens m - 500 \<longrightarrow>
                estimateTokens m (JSON_stringify (hd msgs)) + getTotalTokens m (drop n (tl msgs))
                  \<le> maxContextTokens m - 500)
           \<and> (estimateTokens m (JSON_stringify (hd msgs)) > maxContextTokens m - 500 \<longrightarrow>
                n = length (tl msgs))"
proof (cases "estimateTokens m (JSON_stringify (hd msgs)) > maxContextTokens m - 500")
  case True
  then have "trimToContextWindow m msgs = hd msgs # drop (length (tl msgs)) (tl msgs)"
    using assms by (simp add: trimToContextWindow_def)
  then show ?thesis using True by auto
next
  case False
  let ?sys = "estimateTokens m (JSON_stringify (hd msgs))"
  let ?a = "maxContextTokens m - ?sys - 500"
  obtain k where k: "trim_loop m ?a (rev (tl msgs)) 0 [hd msgs] = [hd msgs] @ take k (rev (tl msgs))"
      "0 \<le> ?a \<longrightarrow> 0 + getTotalTokens m (take k (rev (tl msgs))) \<le> ?a"
    using trim_loop_take [of m ?a "rev (tl msgs)" 0 "[hd msgs]"] by blast
  have rev_take: "rev (take k (rev (tl msgs))) = drop (length (tl msgs) - k) (tl msgs)"
    by (simp add: rev_take)
  have eq: "trimToContextWindow m msgs = hd msgs # drop (length (tl msgs) - k) (tl msgs)"
    using assms False k(1) rev_take by (simp add: trimToContextWindow_def Let_def)
  have "getTotalTokens m (drop (length (tl msgs) - k) (tl msgs)) = getTotalTokens m (take k (rev (tl msgs)))"
    using rev_take getTotalTokens_rev [of m "take k (rev (tl msgs))"] by simp
  then have "?sys + getTotalTokens m (drop (length (tl msgs) - k) (tl msgs)) \<le> maxContextTokens m - 500"
    using k(2) False by linarith
  then show ?thesis using eq False by blast
qed

lemma trimToContextWindow_hd:
  "msgs \<noteq> [] \<Longrightarrow> trimToContextWindow m msgs \<noteq> [] \<and> hd (trimToContextWindow m msgs) = hd msgs"
  using trimToContextWindow_shape [of msgs m] by auto

lemma trimToContextWindow_idem:
  assumes pos: "0 < charsPerToken m"
  shows "trimToContextWindow m (trimToContextWindow m msgs) = trimToContextWindow m msgs"
proof (cases "msgs = []")
  case True
  then show ?thesis by (simp add: trimToContextWindow_def)
next
  case False
  let ?sys = "estimateTokens m (JSON_stringify (hd msgs))"
  obtain n where n: "trimToContextWindow m msgs = hd msgs # drop n (tl msgs)"
    "?sys \<le> maxContextTokens m - 500 \<longrightarrow>
       ?sys + getTotalTokens m (drop n (tl msgs)) \<le> maxContextTokens m - 500"
    "?sys > maxContextTokens m - 500 \<longrightarrow> n = length (tl msgs)"
    using trimToContextWindow_shape [OF False, of m] by blast
  show ?thesis
  proof (cases "?sys > maxContextTokens m - 500")
    case True
    then show ?thesis using n by (simp add: trimToContextWindow_def)
  next
    case small: False
    let ?kept = "drop n (tl msgs)"
    have "0 + getTotalTokens m (rev ?kept) \<le> maxContextTokens m - ?sys - 500"
      using n(2) small by (simp add: getTotalTokens_rev)
    then have "trim_loop m (maxContextTokens m - ?sys - 500) (rev ?kept) 0 [hd msgs]
                 = [hd msgs] @ rev ?kept"
      by (rule trim_loop_all [OF pos])
    then show ?thesis using n(1) small by (simp add: trimToContextWindow_def Let_def)
  qed
qed

section \<open>The trimmed history\<close>

text \<open>
  C3. The messages that trimming keeps after the anchor are a suffix of the messages
  after the anchor of its input: the same messages in the same order, the newest ones,
  with no gap. So no kept message is older than a dropped one.
\<close>

theorem trim_keeps_suffix:
  "suffix (tl (trimToContextWindow m msgs)) (tl msgs)"
proof (cases "msgs = []")
  case True
  then show ?thesis by (simp add: trimToContextWindow_def)
next
  case False
  then obtain n where "trimToContextWindow m msgs = hd msgs # drop n (tl msgs)"
    using trimToContextWindow_shape [of msgs m] by blast
  then show ?thesis by (simp add: suffix_drop)
qed

text \<open>
  C2. For a history that starts with its anchor: when the anchor alone costs at most
  the context window less the reserve of 500 tokens, the total cost of the trimmed
  history is at most that; when the anchor alone costs more, the trimmed history is the
  anchor alone.
\<close>

theorem trim_budget_respect:
  assumes "msgs \<noteq> []"
  shows "(estimateTokens m (JSON_stringify (hd msgs)) \<le> maxContextTokens m - 500 \<longrightarrow>
            getTotalTokens m (trimToContextWindow m msgs) \<le> maxContextTokens m - 500)
       \<and> (estimateTokens m (JSON_stringify (hd msgs)) > maxContextTokens m - 500 \<longrightarrow>
            trimToContextWindow m msgs = [hd msgs])"
proof -
  obtain n where n: "trimToContextWindow m msgs = hd msgs # drop n (tl msgs)"
    "estimateTokens m (JSON_stringify (hd msgs)) \<le> maxContextTokens m - 500 \<longrightarrow>
       estimateTokens m (JSON_stringify (hd msgs)) + getTotalTokens m (drop n (tl msgs))
         \<le> maxContextTokens m - 500"
    "estimateTokens m (JSON_stringify (hd msgs)) > maxContextTokens m - 500 \<longrightarrow> n = length (tl msgs)"
    using trimToContextWindow_shape [OF assms, of m] by blast
  show ?thesis using n by (simp add: getTotalTokens_Cons)
qed

lemma estimateTokens_4:
  "charsPerToken m = 4 \<Longrightarrow> estimateTokens m text = (int (length text) + 3) div 4"
  by (simp add: estimateTokens_def)

lemma length_JSON_stringify:
  "length (JSON_stringify msg) =
     24 + length (concat (map quote_code_unit (role msg)))
        + length (concat (map quote_code_unit (content msg)))"
  by (simp add: JSON_stringify_def QuoteJSONString_def)

lemma length_quote_replicate:
  "quote_code_unit c = [c] \<Longrightarrow> length (concat (map quote_code_unit (replicate n c))) = n"
  by (induction n) simp_all

lemma length_quote_role:
  "length (concat (map quote_code_unit ''system'')) = 6"
  "length (concat (map quote_code_unit ''user'')) = 4"
  "length (concat (map quote_code_unit ''assistant'')) = 9"
  by (simp_all add: quote_code_unit_def)

lemma small_manager_fields:
  "sessions small_manager = Map.empty" "ttl small_manager = 3600000"
  "maxContextTokens small_manager = 610" "charsPerToken small_manager = 4"
  by (simp_all add: small_manager_def CHAT_SESSION_TTL_def)

lemma small_history_costs:
  "estimateTokens small_manager
     (JSON_stringify \<lparr>role = ''system'', content = replicate 170 CHR ''s''\<rparr>) = 50"
  "estimateTokens small_manager
     (JSON_stringify \<lparr>role = ''user'', content = replicate 2372 CHR ''u''\<rparr>) = 600"
  "estimateTokens small_manager
     (JSON_stringify \<lparr>role = ''assistant'', content = replicate 127 CHR ''a''\<rparr>) = 40"
  "estimateTokens small_manager
     (JSON_stringify \<lparr>role = ''user'', content = replicate 52 CHR ''q''\<rparr>) = 20"
  by (simp_all add: estimateTokens_4 small_manager_fields length_JSON_stringify length_quote_role
        length_quote_replicate quote_code_unit_def)

lemma small_history_anchor_cost:
  "estimateTokens small_manager (JSON_stringify (hd small_history)) = 50"
  by (simp add: small_history_def small_history_costs)

text \<open>
  An instance: the example history starts with an anchor of 50 tokens, and its trimmed
  form costs at most 610 - 500 tokens.
\<close>

theorem trim_budget_respect_witness:
  "small_history \<noteq> []
   \<and> getTotalTokens small_manager (trimToContextWindow small_manager small_history) \<le> 110"
proof -
  have ne: "small_history \<noteq> []" by (simp add: small_history_def)
  have window: "maxContextTokens small_manager = 610" by (simp add: small_manager_fields)
  show ?thesis
    using ne window small_history_anchor_cost trim_budget_respect [OF ne, of small_manager]
    by simp
qed

lemma small_history_trimmed:
  "trimToContextWindow small_manager small_history =
     [\<lparr>role = ''system'', content = replicate 170 CHR ''s''\<rparr>,
      \<lparr>role = ''assistant'', content = replicate 127 CHR ''a''\<rparr>,
      \<lparr>role = ''user'', content = replicate 52 CHR ''q''\<rparr>]"
  by (simp add: trimToContextWindow_def small_history_def small_history_costs
        small_manager_fields Let_def)

section \<open>The session manager\<close>

lemma getSession_absent:
  "sessions m pid = None \<Longrightarrow> getSession m now pid = (None, m)"
  by (simp add: getSession_def)

lemma getSession_live:
  "sessions m pid = Some s \<Longrightarrow> \<not> now - lastAccess s > ttl m \<Longrightarrow>
   getSession m now pid = (Some s, m)"
  by (simp add: getSession_def)

lemma getSession_expired:
  "sessions m pid = Some s \<Longrightarrow> now - lastAccess s > ttl m \<Longrightarrow>
   getSession m now pid = (None, m\<lparr>sessions := (sessions m)(pid := None)\<rparr>)"
  by (simp add: getSession_def)

lemma getSession_found:
  "getSession m now pid = (Some s, m') \<Longrightarrow>
   m' = m \<and> sessions m pid = Some s \<and> \<not> now - lastAccess s > ttl m"
  by (auto simp: getSession_def split: option.splits if_splits)

lemma getSession_not_found:
  "getSession m now pid = (None, m') \<Longrightarrow>
   sessions m' pid = None \<and> m' = m\<lparr>sessions := (sessions m)(pid := None)\<rparr>"
  by (auto simp: getSession_def fun_upd_idem split: option.splits if_splits)

lemma getMessages_live:
  "sessions m pid = Some s \<Longrightarrow> \<not> now - lastAccess s > ttl m \<Longrightarrow>
   getMessages m now pid =
     (if getTotalTokens m (messages s) > maxContextTokens m
      then (Some (trimToContextWindow m (messages s)),
            m\<lparr>sessions := (sessions m)(pid \<mapsto> s\<lparr>messages := trimToContextWindow m (messages s)\<rparr>)\<rparr>)
      else (Some (messages s), m))"
  by (simp add: getMessages_def getSession_live Let_def)

lemma getMessages_absent:
  "sessions m pid = None \<Longrightarrow> getMessages m now pid = (None, m)"
  by (simp add: getMessages_def getSession_absent)

lemma getMessages_found:
  assumes "getMessages m now pid = (Some msgs, m')"
  shows "\<exists>s. sessions m pid = Some s \<and> \<not> now - lastAccess s > ttl m"
proof (cases "getSession m now pid")
  case (Pair found m1)
  with assms obtain s where "found = Some s"
    by (cases found) (auto simp: getMessages_def)
  with Pair show ?thesis using getSession_found by blast
qed

text \<open>
  C9. Running the sweep twice in succession at the same clock reading leaves the manager
  as one run leaves it: the second run deletes nothing.
\<close>

theorem sweep_idempotent:
  "cleanupOldSessions (cleanupOldSessions m now) now = cleanupOldSessions m now"
proof -
  have "sessions (cleanupOldSessions (cleanupOldSessions m now) now) pid
          = sessions (cleanupOldSessions m now) pid" for pid
    by (simp add: cleanupOldSessions_def split: option.splits)
  then have "sessions (cleanupOldSessions (cleanupOldSessions m now) now)
          = sessions (cleanupOldSessions m now)"
    by (rule ext)
  then show ?thesis
    by (simp add: cleanupOldSessions_def)
qed

lemma createSession_eq:
  "createSession m now pid p =
     (\<lparr>messages = [\<lparr>role = ''system'', content = js_trim p\<rparr>],
       createdAt = now, lastAccess = now, packetId = pid\<rparr>,
      m\<lparr>sessions := (sessions m)(pid \<mapsto>
          \<lparr>messages = [\<lparr>role = ''system'', content = js_trim p\<rparr>],
           createdAt = now, lastAccess = now, packetId = pid\<rparr>)\<rparr>)"
  by (simp add: createSession_def Let_def)

lemma addMessage_live:
  "sessions m pid = Some s \<Longrightarrow> \<not> now - lastAccess s > ttl m \<Longrightarrow>
   addMessage m now pid r c sp =
     (s\<lparr>messages := messages s @ [\<lparr>role = r, content = c\<rparr>], lastAccess := now\<rparr>,
      m\<lparr>sessions := (sessions m)(pid \<mapsto>
          s\<lparr>messages := messages s @ [\<lparr>role = r, content = c\<rparr>], lastAccess := now\<rparr>)\<rparr>)"
  by (simp add: addMessage_def getSession_live Let_def)

lemma addMessage_not_live:
  assumes "fst (getSession m now pid) = None"
  shows "addMessage m now pid r c None =
     (\<lparr>messages = [\<lparr>role = ''system'',
                      content = js_trim (if r = ''user'' then SYSTEM_PROMPT else CHAT_SYSTEM_PROMPT)\<rparr>,
                    \<lparr>role = r, content = c\<rparr>],
       createdAt = now, lastAccess = now, packetId = pid\<rparr>,
      m\<lparr>sessions := (sessions m)(pid \<mapsto>
          \<lparr>messages = [\<lparr>role = ''system'',
                          content = js_trim (if r = ''user'' then SYSTEM_PROMPT else CHAT_SYSTEM_PROMPT)\<rparr>,
                        \<lparr>role = r, content = c\<rparr>],
           createdAt = now, lastAccess = now, packetId = pid\<rparr>)\<rparr>)"
proof (cases "getSession m now pid")
  case (Pair found m1)
  with assms have none: "found = None" by simp
  with Pair have m1: "sessions m1 pid = None" "m1 = m\<lparr>sessions := (sessions m)(pid := None)\<rparr>"
    using getSession_not_found by blast+
  show ?thesis
    using Pair none m1(1) by (simp add: addMessage_def createSession_eq m1(2) Let_def)
qed

text \<open>
  C8. A session that has been idle for longer than the time to live is gone after the
  sweep. The swept manager is the one the sweep would have left had the session never
  been stored, so everything later behaves as if it never existed: a read of the key
  returns \<^verbatim>\<open>null\<close> and changes nothing, and an append starts a new session.
\<close>

theorem ttl_expiration:
  assumes "sessions m pid = Some s" and "now - lastAccess s > ttl m"
  shows "sessions (cleanupOldSessions m now) pid = None
       \<and> cleanupOldSessions m now
            = cleanupOldSessions (m\<lparr>sessions := (sessions m)(pid := None)\<rparr>) now
       \<and> (\<forall>later. getMessages (cleanupOldSessions m now) later pid
                     = (None, cleanupOldSessions m now))
       \<and> (\<forall>later r c. fst (addMessage (cleanupOldSessions m now) later pid r c None) =
             \<lparr>messages = [\<lparr>role = ''system'',
                             content = js_trim (if r = ''user'' then SYSTEM_PROMPT
                                                else CHAT_SYSTEM_PROMPT)\<rparr>,
                           \<lparr>role = r, content = c\<rparr>],
              createdAt = later, lastAccess = later, packetId = pid\<rparr>)"
proof -
  have gone: "sessions (cleanupOldSessions m now) pid = None"
    using assms by (simp add: cleanupOldSessions_def)
  have "sessions (cleanupOldSessions m now) k
          = sessions (cleanupOldSessions (m\<lparr>sessions := (sessions m)(pid := None)\<rparr>) now) k" for k
    using assms by (simp add: cleanupOldSessions_def split: option.splits)
  then have "sessions (cleanupOldSessions m now)
          = sessions (cleanupOldSessions (m\<lparr>sessions := (sessions m)(pid := None)\<rparr>) now)"
    by (rule ext)
  then have same: "cleanupOldSessions m now
          = cleanupOldSessions (m\<lparr>sessions := (sessions m)(pid := None)\<rparr>) now"
    by (simp add: cleanupOldSessions_def)
  have read: "getMessages (cleanupOldSessions m now) later pid = (None, cleanupOldSessions m now)"
    for later
    using gone by (rule getMessages_absent)
  have "fst (getSession (cleanupOldSessions m now) later pid) = None" for later
    using gone by (simp add: getSession_absent)
  then have append: "fst (addMessage (cleanupOldSessions m now) later pid r c None) =
             \<lparr>messages = [\<lparr>role = ''system'',
                             content = js_trim (if r = ''user'' then SYSTEM_PROMPT
                                                else CHAT_SYSTEM_PROMPT)\<rparr>,
                           \<lparr>role = r, content = c\<rparr>],
              createdAt = later, lastAccess = later, packetId = pid\<rparr>" for later r c
    by (simp add: addMessage_not_live)
  show ?thesis using gone same read append by blast
qed

text \<open>
  C4, as the program has it. An append to a key without a live session, with no system
  prompt given, does not fail: it creates a session whose anchor is the evaluation
  prompt when the role is \<^verbatim>\<open>user\<close> and the chat prompt otherwise, appends the
  message, stamps the session with the clock reading and stores it under the key.
\<close>

theorem append_creates_missing_session:
  assumes "fst (getSession m now pid) = None"
  shows "addMessage m now pid r c None =
     (\<lparr>messages = [\<lparr>role = ''system'',
                      content = js_trim (if r = ''user'' then SYSTEM_PROMPT else CHAT_SYSTEM_PROMPT)\<rparr>,
                    \<lparr>role = r, content = c\<rparr>],
       createdAt = now, lastAccess = now, packetId = pid\<rparr>,
      m\<lparr>sessions := (sessions m)(pid \<mapsto>
          \<lparr>messages = [\<lparr>role = ''system'',
                          content = js_trim (if r = ''user'' then SYSTEM_PROMPT else CHAT_SYSTEM_PROMPT)\<rparr>,
                        \<lparr>role = r, content = c\<rparr>],
           createdAt = now, lastAccess = now, packetId = pid\<rparr>)\<rparr>)"
  using assms by (rule addMessage_not_live)

lemma addMessage_stored:
  "sessions (snd (addMessage m now pid r c sp)) pid = Some (fst (addMessage m now pid r c sp))
   \<and> lastAccess (fst (addMessage m now pid r c sp)) = now"
  by (simp add: addMessage_def Let_def split: prod.splits option.splits)

lemma getMessages_keeps_stamps:
  assumes "getMessages m now pid = (Some msgs, m')"
  shows "\<exists>s s'. sessions m pid = Some s \<and> sessions m' pid = Some s'
           \<and> lastAccess s' = lastAccess s \<and> createdAt s' = createdAt s
           \<and> messages s' = msgs"
proof -
  obtain s where s: "sessions m pid = Some s" "\<not> now - lastAccess s > ttl m"
    using getMessages_found [OF assms] by blast
  show ?thesis
    using assms s by (auto simp: getMessages_live split: if_splits)
qed

text \<open>
  C6, as the program has it. Every append sets \<open>lastAccess\<close> of the session to the
  clock reading and stores the session; a read that finds the session leaves its
  \<open>lastAccess\<close> as it was.
\<close>

theorem append_refreshes_read_does_not:
  "lastAccess (fst (addMessage m now pid r c sp)) = now
   \<and> sessions (snd (addMessage m now pid r c sp)) pid = Some (fst (addMessage m now pid r c sp))
   \<and> (\<forall>msgs m'. getMessages m now pid = (Some msgs, m') \<longrightarrow>
         (\<exists>s s'. sessions m pid = Some s \<and> sessions m' pid = Some s'
            \<and> lastAccess s' = lastAccess s))"
  using addMessage_stored [of m now pid r c sp] getMessages_keeps_stamps [of m now pid] by blast

lemma anchor_Some_iff:
  "anchor m pid = Some a \<longleftrightarrow>
     (\<exists>s. sessions m pid = Some s \<and> messages s \<noteq> [] \<and> hd (messages s) = a)"
  by (auto simp: anchor_def split: option.splits list.splits)

lemma anchor_eqI:
  "sessions m pid = Some s \<Longrightarrow> sessions m' pid = Some s' \<Longrightarrow> messages s \<noteq> [] \<Longrightarrow>
   messages s' \<noteq> [] \<Longrightarrow> hd (messages s') = hd (messages s) \<Longrightarrow>
   anchor m' pid = anchor m pid"
  by (auto simp: anchor_def split: option.splits list.splits)

lemma anchoredD:
  "anchored m \<Longrightarrow> sessions m pid = Some s \<Longrightarrow>
   messages s \<noteq> [] \<and> role (hd (messages s)) = ''system''"
  by (simp add: anchored_def)

lemma anchored_update:
  assumes "anchored m" "messages s \<noteq> []" "role (hd (messages s)) = ''system''"
  shows "anchored (m\<lparr>sessions := (sessions m)(pid \<mapsto> s)\<rparr>)"
  using assms by (auto simp: anchored_def)

lemma anchored_delete:
  "anchored m \<Longrightarrow> anchored (m\<lparr>sessions := (sessions m)(pid := None)\<rparr>)"
  by (auto simp: anchored_def)

lemma anchored_addMessage:
  assumes "anchored m"
  shows "anchored (snd (addMessage m now pid r c None))"
proof (cases "getSession m now pid")
  case (Pair found m1)
  show ?thesis
  proof (cases found)
    case None
    with Pair have "fst (getSession m now pid) = None" by simp
    then show ?thesis
      using assms by (simp add: addMessage_not_live anchored_update)
  next
    case (Some s)
    with Pair have s: "sessions m pid = Some s" "\<not> now - lastAccess s > ttl m"
      using getSession_found by blast+
    have "messages s \<noteq> []" "role (hd (messages s)) = ''system''"
      using anchoredD [OF assms s(1)] by simp_all
    then show ?thesis
      using assms s by (simp add: addMessage_live anchored_update)
  qed
qed

lemma anchored_getMessages:
  assumes "anchored m"
  shows "anchored (snd (getMessages m now pid))"
proof (cases "getSession m now pid")
  case (Pair found m1)
  show ?thesis
  proof (cases found)
    case None
    with Pair have "m1 = m\<lparr>sessions := (sessions m)(pid := None)\<rparr>"
      using getSession_not_found by blast
    then show ?thesis
      using assms Pair None by (simp add: getMessages_def anchored_delete)
  next
    case (Some s)
    with Pair have s: "sessions m pid = Some s" "\<not> now - lastAccess s > ttl m"
      using getSession_found by blast+
    have ne: "messages s \<noteq> []" and sys: "role (hd (messages s)) = ''system''"
      using anchoredD [OF assms s(1)] by simp_all
    show ?thesis
      using assms s sys trimToContextWindow_hd [OF ne, of m]
      by (simp add: getMessages_live anchored_update)
  qed
qed

lemma anchored_step:
  "anchored m \<Longrightarrow> anchored (step pid m timed)"
  by (cases "(pid, m, timed)" rule: step.cases)
     (simp_all add: anchored_addMessage anchored_getMessages)

lemma anchored_foldl_step:
  "anchored m \<Longrightarrow> anchored (foldl (step pid) m ops)"
  by (induction ops arbitrary: m) (simp_all add: anchored_step)

lemma read_returns_anchor:
  assumes "anchored m" and "getMessages m now pid = (Some msgs, m')"
  shows "msgs \<noteq> [] \<and> role (hd msgs) = ''system''
       \<and> anchor m pid = Some (hd msgs) \<and> anchor m' pid = Some (hd msgs)"
proof -
  obtain s where s: "sessions m pid = Some s" "\<not> now - lastAccess s > ttl m"
    using getMessages_found [OF assms(2)] by blast
  have ne: "messages s \<noteq> []" and sys: "role (hd (messages s)) = ''system''"
    using anchoredD [OF assms(1) s(1)] by simp_all
  have before: "anchor m pid = Some (hd (messages s))"
    using s(1) ne by (auto simp: anchor_Some_iff)
  show ?thesis
  proof (cases "getTotalTokens m (messages s) > maxContextTokens m")
    case True
    then have "msgs = trimToContextWindow m (messages s)"
      and "sessions m' pid = Some (s\<lparr>messages := trimToContextWindow m (messages s)\<rparr>)"
      using assms(2) s by (auto simp: getMessages_live)
    then show ?thesis
      using before sys trimToContextWindow_hd [OF ne, of m] by (auto simp: anchor_Some_iff)
  next
    case False
    then have "msgs = messages s" "m' = m"
      using assms(2) s by (auto simp: getMessages_live)
    then show ?thesis using before ne sys by simp
  qed
qed

lemma anchor_step_live:
  assumes "anchored m" and "fst (getSession m (fst timed) pid) \<noteq> None"
  shows "anchor (step pid m timed) pid = anchor m pid"
proof -
  obtain now oper where timed: "timed = (now, oper)" by (cases timed)
  obtain s where found: "getSession m now pid = (Some s, snd (getSession m now pid))"
    using assms(2) timed by (cases "getSession m now pid") auto
  then have s: "sessions m pid = Some s" "\<not> now - lastAccess s > ttl m"
    using getSession_found by blast+
  have ne: "messages s \<noteq> []" using anchoredD [OF assms(1) s(1)] by simp
  show ?thesis
  proof (cases oper)
    case (Append r c)
    let ?s' = "s\<lparr>messages := messages s @ [\<lparr>role = r, content = c\<rparr>], lastAccess := now\<rparr>"
    have stored: "sessions (snd (addMessage m now pid r c None)) pid = Some ?s'"
      using s by (simp add: addMessage_live)
    have "anchor (snd (addMessage m now pid r c None)) pid = anchor m pid"
      using ne by (intro anchor_eqI [OF s(1) stored]) simp_all
    then show ?thesis using timed Append by simp
  next
    case Read
    obtain msgs m' where r: "getMessages m now pid = (Some msgs, m')"
      using s by (cases "getTotalTokens m (messages s) > maxContextTokens m")
                 (simp_all add: getMessages_live)
    then have "anchor m' pid = anchor m pid"
      using read_returns_anchor [OF assms(1) r] by simp
    then show ?thesis using timed Read r by simp
  qed
qed

lemma anchor_foldl_step_live:
  "anchored m \<Longrightarrow> stays_live m pid ops \<Longrightarrow> anchor (foldl (step pid) m ops) pid = anchor m pid"
proof (induction ops arbitrary: m)
  case Nil
  show ?case by simp
next
  case (Cons timed ops)
  from Cons.prems have live: "fst (getSession m (fst timed) pid) \<noteq> None"
    and rest: "stays_live (step pid m timed) pid ops" by simp_all
  have "anchor (foldl (step pid) (step pid m timed) ops) pid = anchor (step pid m timed) pid"
    using Cons.IH [OF anchored_step [OF Cons.prems(1)] rest] .
  also have "\<dots> = anchor m pid"
    using anchor_step_live [OF Cons.prems(1) live] .
  finally show ?case by simp
qed

text \<open>
  The manager the constructor builds has the invariant, and the other operations that
  store or delete sessions keep it.
\<close>

lemma anchored_ChatSessionManager: "anchored (ChatSessionManager t)"
  by (simp add: anchored_def ChatSessionManager_def)

lemma anchored_createSession:
  "anchored m \<Longrightarrow> anchored (snd (createSession m now pid p))"
  by (simp add: createSession_eq anchored_update)

lemma anchored_cleanupOldSessions:
  "anchored m \<Longrightarrow> anchored (cleanupOldSessions m now)"
  by (auto simp: anchored_def cleanupOldSessions_def split: option.splits if_splits)

lemma anchored_clearSession:
  "anchored m \<Longrightarrow> anchored (snd (clearSession m pid))"
  by (simp add: clearSession_def anchored_delete)


text \<open>
  C1. Start from a manager whose sessions all begin with a system message, and run any
  sequence of appends and reads on a key. Every session still begins with a system
  message; while the session is found alive by every operation its anchor is the one it
  started with; a read that follows returns a history whose first element is the anchor
  of the session, a system message, and leaves it the anchor; and trimming keeps the
  first message of a history in first place.
\<close>

theorem anchor_invariance:
  assumes "anchored m"
  shows "anchored (foldl (step pid) m ops)
       \<and> (stays_live m pid ops \<longrightarrow> anchor (foldl (step pid) m ops) pid = anchor m pid)
       \<and> (\<forall>now msgs m'. getMessages (foldl (step pid) m ops) now pid = (Some msgs, m') \<longrightarrow>
             msgs \<noteq> [] \<and> role (hd msgs) = ''system''
             \<and> anchor (foldl (step pid) m ops) pid = Some (hd msgs)
             \<and> anchor m' pid = Some (hd msgs))
       \<and> (\<forall>msgs. msgs \<noteq> [] \<longrightarrow>
             trimToContextWindow m msgs \<noteq> [] \<and> hd (trimToContextWindow m msgs) = hd msgs)"
proof -
  have inv: "anchored (foldl (step pid) m ops)"
    using assms by (rule anchored_foldl_step)
  have stable: "stays_live m pid ops \<longrightarrow> anchor (foldl (step pid) m ops) pid = anchor m pid"
    using assms by (simp add: anchor_foldl_step_live)
  have reads: "\<forall>now msgs m'. getMessages (foldl (step pid) m ops) now pid = (Some msgs, m') \<longrightarrow>
             msgs \<noteq> [] \<and> role (hd msgs) = ''system''
             \<and> anchor (foldl (step pid) m ops) pid = Some (hd msgs)
             \<and> anchor m' pid = Some (hd msgs)"
    using read_returns_anchor [OF inv] by blast
  have trim: "\<forall>msgs. msgs \<noteq> [] \<longrightarrow>
             trimToContextWindow m msgs \<noteq> [] \<and> hd (trimToContextWindow m msgs) = hd msgs"
    using trimToContextWindow_hd by blast
  show ?thesis using inv stable reads trim by blast
qed

section \<open>Runs on concrete managers\<close>

lemma fresh_manager_fields:
  "sessions fresh_manager = Map.empty" "ttl fresh_manager = 3600000"
  "maxContextTokens fresh_manager = 6000" "charsPerToken fresh_manager = 4"
  by (simp_all add: fresh_manager_def ChatSessionManager_def CHAT_SESSION_TTL_def)

lemma js_trim_S: "js_trim ''S'' = ''S''"
  by (simp add: js_trim_def is_js_whitespace_def)

lemma one_session_fields:
  "sessions one_session =
     [''p1'' \<mapsto> \<lparr>messages = [\<lparr>role = ''system'', content = ''S''\<rparr>],
                  createdAt = 0, lastAccess = 0, packetId = ''p1''\<rparr>]"
  "ttl one_session = 3600000"
  "maxContextTokens one_session = 6000" "charsPerToken one_session = 4"
  by (simp_all add: one_session_def createSession_eq fresh_manager_fields js_trim_S)

lemma one_session_cost:
  "getTotalTokens one_session [\<lparr>role = ''system'', content = ''S''\<rparr>] = 8"
  by (simp add: getTotalTokens_Cons getTotalTokens_def estimateTokens_4 one_session_fields
        length_JSON_stringify length_quote_role quote_code_unit_def)

lemma one_session_read:
  "now \<le> 3600000 \<Longrightarrow>
   getMessages one_session now ''p1'' = (Some [\<lparr>role = ''system'', content = ''S''\<rparr>], one_session)"
  by (simp add: getMessages_live [where s = "\<lparr>messages = [\<lparr>role = ''system'', content = ''S''\<rparr>],
                  createdAt = 0, lastAccess = 0, packetId = ''p1''\<rparr>"] one_session_fields one_session_cost)

text \<open>
  An instance: with a time to live of one hour, a session last accessed at time 0 is
  gone after the sweep at 3600001 milliseconds, and a read then finds nothing.
\<close>

theorem ttl_expiration_witness:
  "sessions one_session ''p1'' =
     Some \<lparr>messages = [\<lparr>role = ''system'', content = ''S''\<rparr>],
           createdAt = 0, lastAccess = 0, packetId = ''p1''\<rparr>
   \<and> 3600001 - lastAccess \<lparr>messages = [\<lparr>role = ''system'', content = ''S''\<rparr>],
           createdAt = 0, lastAccess = 0, packetId = ''p1''\<rparr> > ttl one_session
   \<and> sessions (cleanupOldSessions one_session 3600001) ''p1'' = None
   \<and> getMessages (cleanupOldSessions one_session 3600001) 3600001 ''p1''
        = (None, cleanupOldSessions one_session 3600001)"
proof -
  let ?s = "\<lparr>messages = [\<lparr>role = ''system'', content = ''S''\<rparr>],
           createdAt = 0, lastAccess = 0, packetId = ''p1''\<rparr>"
  have stored: "sessions one_session ''p1'' = Some ?s"
    by (simp add: one_session_fields)
  have idle: "3600001 - lastAccess ?s > ttl one_session"
    by (simp add: one_session_fields)
  show ?thesis
    using stored idle ttl_expiration [OF stored idle] by blast
qed

text \<open>
  C4 as stated fails: on the manager the program builds, the key \<^verbatim>\<open>p1\<close> has no
  session, and an append with no system prompt leaves a session under the key, holding
  the evaluation prompt and the appended message.
\<close>

theorem append_without_session_counterexample:
  "fst (getSession fresh_manager 0 ''p1'') = None
   \<and> map_option messages
        (sessions (snd (addMessage fresh_manager 0 ''p1'' ''user'' ''hello'' None)) ''p1'')
      = Some [\<lparr>role = ''system'', content = js_trim SYSTEM_PROMPT\<rparr>,
              \<lparr>role = ''user'', content = ''hello''\<rparr>]"
proof -
  have none: "fst (getSession fresh_manager 0 ''p1'') = None"
    by (simp add: getSession_absent fresh_manager_fields)
  show ?thesis
    using none by (simp add: addMessage_not_live)
qed

text \<open>
  An instance: an answer of the model that arrives when its session is gone starts a new
  session under the chat prompt.
\<close>

theorem append_creates_missing_session_witness:
  "fst (getSession fresh_manager 0 ''p1'') = None
   \<and> fst (addMessage fresh_manager 0 ''p1'' ''assistant'' ''late answer'' None)
      = \<lparr>messages = [\<lparr>role = ''system'', content = js_trim CHAT_SYSTEM_PROMPT\<rparr>,
                     \<lparr>role = ''assistant'', content = ''late answer''\<rparr>],
         createdAt = 0, lastAccess = 0, packetId = ''p1''\<rparr>"
proof -
  have none: "fst (getSession fresh_manager 0 ''p1'') = None"
    by (simp add: getSession_absent fresh_manager_fields)
  show ?thesis
    using none append_creates_missing_session [OF none, of "''assistant''" "''late answer''"]
    by simp
qed

text \<open>
  C6 as stated fails for reads: a session last accessed at time 0 is read at time 1000,
  the read succeeds, and \<open>lastAccess\<close> is still 0.
\<close>

theorem read_refreshes_lastAccess_counterexample:
  "fst (getMessages one_session 1000 ''p1'') = Some [\<lparr>role = ''system'', content = ''S''\<rparr>]
   \<and> map_option lastAccess (sessions (snd (getMessages one_session 1000 ''p1'')) ''p1'') = Some 0"
  by (simp add: one_session_read one_session_fields)

text \<open>
  An instance: the read at time 1000 returns the history and leaves the manager as it
  was; an append at time 1000 sets \<open>lastAccess\<close> to 1000.
\<close>

theorem append_refreshes_read_does_not_witness:
  "getMessages one_session 1000 ''p1''
     = (Some [\<lparr>role = ''system'', content = ''S''\<rparr>], one_session)
   \<and> (\<exists>s s'. sessions one_session ''p1'' = Some s \<and> sessions one_session ''p1'' = Some s'
         \<and> lastAccess s' = lastAccess s)
   \<and> lastAccess (fst (addMessage one_session 1000 ''p1'' ''user'' ''hi'' None)) = 1000"
proof -
  have r: "getMessages one_session 1000 ''p1''
     = (Some [\<lparr>role = ''system'', content = ''S''\<rparr>], one_session)"
    by (simp add: one_session_read)
  show ?thesis
    using r append_refreshes_read_does_not [of one_session 1000 "''p1''" "''user''" "''hi''" None]
    by blast
qed

section \<open>Reading a session\<close>

lemma estimateTokens_sessions_update:
  "estimateTokens (m\<lparr>sessions := f\<rparr>) text = estimateTokens m text"
  by (simp add: estimateTokens_def)

lemma getTotalTokens_sessions_update:
  "getTotalTokens (m\<lparr>sessions := f\<rparr>) msgs = getTotalTokens m msgs"
  by (simp add: getTotalTokens_def estimateTokens_sessions_update)

lemma trim_loop_sessions_update:
  "trim_loop (m\<lparr>sessions := f\<rparr>) a xs t acc = trim_loop m a xs t acc"
  by (induction xs arbitrary: t acc) (simp_all add: estimateTokens_sessions_update Let_def)

lemma trimToContextWindow_sessions_update:
  "trimToContextWindow (m\<lparr>sessions := f\<rparr>) msgs = trimToContextWindow m msgs"
  by (simp add: trimToContextWindow_def estimateTokens_sessions_update trim_loop_sessions_update
        Let_def)

text \<open>
  C5, as the program has it. A read of a live session trims only when the total
  estimate of the stored history exceeds the context window. When the total is within
  the window, the read returns the stored history as it is and leaves the manager as it
  is, also when the total exceeds the window less the reserve of 500 tokens. When the
  total exceeds the window, the read returns the trimmed history and stores it in the
  session; the trimmed history is within the window less the reserve when the anchor
  alone is, and it is the anchor alone when the anchor alone is not.
\<close>

theorem read_trims_only_above_window:
  assumes "sessions m pid = Some s" and "\<not> now - lastAccess s > ttl m"
  shows "(getTotalTokens m (messages s) \<le> maxContextTokens m \<longrightarrow>
            getMessages m now pid = (Some (messages s), m))
       \<and> (getTotalTokens m (messages s) > maxContextTokens m \<longrightarrow>
            getMessages m now pid =
              (Some (trimToContextWindow m (messages s)),
               m\<lparr>sessions := (sessions m)(pid \<mapsto>
                    s\<lparr>messages := trimToContextWindow m (messages s)\<rparr>)\<rparr>)
            \<and> (messages s \<noteq> []
                 \<and> estimateTokens m (JSON_stringify (hd (messages s))) \<le> maxContextTokens m - 500
               \<longrightarrow> getTotalTokens m (trimToContextWindow m (messages s))
                     \<le> maxContextTokens m - 500)
            \<and> (messages s \<noteq> []
                 \<and> estimateTokens m (JSON_stringify (hd (messages s))) > maxContextTokens m - 500
               \<longrightarrow> trimToContextWindow m (messages s) = [hd (messages s)]))"
proof -
  have within: "getMessages m now pid = (Some (messages s), m)"
    if "getTotalTokens m (messages s) \<le> maxContextTokens m"
    using assms that by (simp add: getMessages_live)
  have above: "getMessages m now pid =
              (Some (trimToContextWindow m (messages s)),
               m\<lparr>sessions := (sessions m)(pid \<mapsto>
                    s\<lparr>messages := trimToContextWindow m (messages s)\<rparr>)\<rparr>)"
    if "getTotalTokens m (messages s) > maxContextTokens m"
    using assms that by (simp add: getMessages_live)
  have shape: "\<exists>n. trimToContextWindow m (messages s) = hd (messages s) # drop n (tl (messages s))
           \<and> (estimateTokens m (JSON_stringify (hd (messages s))) \<le> maxContextTokens m - 500 \<longrightarrow>
                estimateTokens m (JSON_stringify (hd (messages s)))
                  + getTotalTokens m (drop n (tl (messages s))) \<le> maxContextTokens m - 500)
           \<and> (estimateTokens m (JSON_stringify (hd (messages s))) > maxContextTokens m - 500 \<longrightarrow>
                n = length (tl (messages s)))"
    if "messages s \<noteq> []"
    using that by (rule trimToContextWindow_shape)
  have bound: "getTotalTokens m (trimToContextWindow m (messages s)) \<le> maxContextTokens m - 500"
    if ne: "messages s \<noteq> []"
      and fits: "estimateTokens m (JSON_stringify (hd (messages s))) \<le> maxContextTokens m - 500"
  proof -
    obtain n where n: "trimToContextWindow m (messages s) = hd (messages s) # drop n (tl (messages s))"
      "estimateTokens m (JSON_stringify (hd (messages s)))
         + getTotalTokens m (drop n (tl (messages s))) \<le> maxContextTokens m - 500"
      using shape [OF ne] fits by blast
    show ?thesis using n by (simp add: getTotalTokens_Cons)
  qed
  have alone: "trimToContextWindow m (messages s) = [hd (messages s)]"
    if ne: "messages s \<noteq> []"
      and big: "estimateTokens m (JSON_stringify (hd (messages s))) > maxContextTokens m - 500"
  proof -
    obtain n where n: "trimToContextWindow m (messages s) = hd (messages s) # drop n (tl (messages s))"
      "n = length (tl (messages s))"
      using shape [OF ne] big by blast
    show ?thesis using n by simp
  qed
  show ?thesis using within above bound alone by blast
qed

text \<open>
  C10. When the total estimate of a live session's history exceeds the context window,
  a read returns the trimmed history and stores it in place of the history: the manager
  it leaves holds the trimmed list only, so what was dropped is gone from the state on
  which every later operation works. A later read of the still live session returns the
  same trimmed list and changes nothing.
\<close>

theorem read_replaces_history:
  assumes "sessions m pid = Some s" and "\<not> now - lastAccess s > ttl m"
    and "getTotalTokens m (messages s) > maxContextTokens m"
  shows "getMessages m now pid =
           (Some (trimToContextWindow m (messages s)),
            m\<lparr>sessions := (sessions m)(pid \<mapsto> s\<lparr>messages := trimToContextWindow m (messages s)\<rparr>)\<rparr>)
       \<and> (0 < charsPerToken m \<longrightarrow>
            (\<forall>later. \<not> later - lastAccess s > ttl m \<longrightarrow>
               getMessages
                 (m\<lparr>sessions := (sessions m)(pid \<mapsto> s\<lparr>messages := trimToContextWindow m (messages s)\<rparr>)\<rparr>)
                 later pid =
               (Some (trimToContextWindow m (messages s)),
                m\<lparr>sessions := (sessions m)(pid \<mapsto> s\<lparr>messages := trimToContextWindow m (messages s)\<rparr>)\<rparr>)))"
proof -
  let ?t = "trimToContextWindow m (messages s)"
  let ?m' = "m\<lparr>sessions := (sessions m)(pid \<mapsto> s\<lparr>messages := ?t\<rparr>)\<rparr>"
  have first: "getMessages m now pid = (Some ?t, ?m')"
    using assms by (simp add: getMessages_live)
  have again: "getMessages ?m' later pid = (Some ?t, ?m')"
    if pos: "0 < charsPerToken m" and live: "\<not> later - lastAccess s > ttl m" for later
  proof -
    have stored: "sessions ?m' pid = Some (s\<lparr>messages := ?t\<rparr>)" by simp
    have live': "\<not> later - lastAccess (s\<lparr>messages := ?t\<rparr>) > ttl ?m'" using live by simp
    have idem: "trimToContextWindow ?m' ?t = ?t"
      using trimToContextWindow_idem [OF pos, of "messages s"]
      by (simp add: trimToContextWindow_sessions_update)
    have same: "?m'\<lparr>sessions := (sessions ?m')(pid \<mapsto> s\<lparr>messages := ?t\<rparr>)\<rparr> = ?m'"
      by simp
    show ?thesis
      using getMessages_live [OF stored live'] idem same
      by (simp add: getTotalTokens_sessions_update)
  qed
  show ?thesis using first again by blast
qed

lemma small_store_fields:
  "sessions small_store =
     [''p1'' \<mapsto> \<lparr>messages = small_history, createdAt = 0, lastAccess = 0,
                  packetId = ''p1''\<rparr>]"
  "ttl small_store = 3600000" "maxContextTokens small_store = 610" "charsPerToken small_store = 4"
  by (simp_all add: small_store_def small_manager_fields)

lemma small_store_costs:
  "getTotalTokens small_store small_history = 710"
  "trimToContextWindow small_store small_history = trimToContextWindow small_manager small_history"
  "getTotalTokens small_store (trimToContextWindow small_manager small_history) = 110"
  by (simp_all add: small_store_def getTotalTokens_sessions_update
        trimToContextWindow_sessions_update small_history_trimmed)
     (simp_all add: small_history_def getTotalTokens_def small_history_costs)

text \<open>
  An instance: after the read at time 5 the session holds the anchor and the two newest
  messages only, and the read at time 9 returns just these.
\<close>

theorem read_replaces_history_witness:
  "sessions small_store ''p1'' =
     Some \<lparr>messages = small_history, createdAt = 0, lastAccess = 0, packetId = ''p1''\<rparr>
   \<and> \<not> 5 - lastAccess \<lparr>messages = small_history, createdAt = 0, lastAccess = 0,
                          packetId = ''p1''\<rparr> > ttl small_store
   \<and> getTotalTokens small_store small_history > maxContextTokens small_store
   \<and> 0 < charsPerToken small_store
   \<and> map_option messages (sessions (snd (getMessages small_store 5 ''p1'')) ''p1'')
        = Some [\<lparr>role = ''system'', content = replicate 170 CHR ''s''\<rparr>,
                \<lparr>role = ''assistant'', content = replicate 127 CHR ''a''\<rparr>,
                \<lparr>role = ''user'', content = replicate 52 CHR ''q''\<rparr>]
   \<and> fst (getMessages (snd (getMessages small_store 5 ''p1'')) 9 ''p1'')
        = Some [\<lparr>role = ''system'', content = replicate 170 CHR ''s''\<rparr>,
                \<lparr>role = ''assistant'', content = replicate 127 CHR ''a''\<rparr>,
                \<lparr>role = ''user'', content = replicate 52 CHR ''q''\<rparr>]"
proof -
  let ?s = "\<lparr>messages = small_history, createdAt = 0, lastAccess = 0, packetId = ''p1''\<rparr>"
  have stored: "sessions small_store ''p1'' = Some ?s" by (simp add: small_store_fields)
  have live: "\<not> 5 - lastAccess ?s > ttl small_store" by (simp add: small_store_fields)
  have over: "getTotalTokens small_store (messages ?s) > maxContextTokens small_store"
    by (simp add: small_store_costs small_store_fields)
  have pos: "0 < charsPerToken small_store" by (simp add: small_store_fields)
  have later: "\<not> 9 - lastAccess ?s > ttl small_store" by (simp add: small_store_fields)
  have trimmed: "trimToContextWindow small_store (messages ?s) =
           [\<lparr>role = ''system'', content = replicate 170 CHR ''s''\<rparr>,
            \<lparr>role = ''assistant'', content = replicate 127 CHR ''a''\<rparr>,
            \<lparr>role = ''user'', content = replicate 52 CHR ''q''\<rparr>]"
    by (simp add: small_store_costs small_history_trimmed)
  from read_replaces_history [OF stored live over] pos later
  have first: "getMessages small_store 5 ''p1'' =
      (Some (trimToContextWindow small_store (messages ?s)),
       small_store\<lparr>sessions := (sessions small_store)(''p1'' \<mapsto>
          ?s\<lparr>messages := trimToContextWindow small_store (messages ?s)\<rparr>)\<rparr>)"
    and again: "getMessages
       (small_store\<lparr>sessions := (sessions small_store)(''p1'' \<mapsto>
          ?s\<lparr>messages := trimToContextWindow small_store (messages ?s)\<rparr>)\<rparr>) 9 ''p1'' =
      (Some (trimToContextWindow small_store (messages ?s)),
       small_store\<lparr>sessions := (sessions small_store)(''p1'' \<mapsto>
          ?s\<lparr>messages := trimToContextWindow small_store (messages ?s)\<rparr>)\<rparr>)"
    by blast+
  show ?thesis
    using stored live over pos first again trimmed by simp
qed

lemma long_session_fields:
  "sessions long_session =
     [''p1'' \<mapsto> \<lparr>messages = [\<lparr>role = ''system'', content = ''S''\<rparr>,
                              \<lparr>role = ''user'', content = long_question\<rparr>],
                  createdAt = 0, lastAccess = 1, packetId = ''p1''\<rparr>]"
  "ttl long_session = 3600000"
  "maxContextTokens long_session = 6000" "charsPerToken long_session = 4"
  by (simp_all add: long_session_def one_session_fields
        addMessage_live [where s = "\<lparr>messages = [\<lparr>role = ''system'', content = ''S''\<rparr>],
                  createdAt = 0, lastAccess = 0, packetId = ''p1''\<rparr>"])

lemma long_session_costs:
  "estimateTokens long_session (JSON_stringify \<lparr>role = ''system'', content = ''S''\<rparr>) = 8"
  "estimateTokens long_session (JSON_stringify \<lparr>role = ''user'', content = long_question\<rparr>) = 5507"
  by (simp_all add: estimateTokens_4 long_session_fields length_JSON_stringify length_quote_role
        long_question_def length_quote_replicate quote_code_unit_def)

text \<open>
  C5 as stated fails: a session of the program's own manager holds a short anchor and a
  question of 22000 characters, 5515 tokens in all. That is within the window of 6000,
  so the read returns both messages, though the total exceeds 6000 - 500 and trimming
  would have kept the anchor alone.
\<close>

lemma long_session_read:
  "getTotalTokens long_session
     [\<lparr>role = ''system'', content = ''S''\<rparr>, \<lparr>role = ''user'', content = long_question\<rparr>]
     = 5515"
  "trimToContextWindow long_session
     [\<lparr>role = ''system'', content = ''S''\<rparr>, \<lparr>role = ''user'', content = long_question\<rparr>]
     = [\<lparr>role = ''system'', content = ''S''\<rparr>]"
  "getMessages long_session 2 ''p1'' =
     (Some [\<lparr>role = ''system'', content = ''S''\<rparr>, \<lparr>role = ''user'', content = long_question\<rparr>],
      long_session)"
proof -
  let ?s = "\<lparr>messages = [\<lparr>role = ''system'', content = ''S''\<rparr>,
                          \<lparr>role = ''user'', content = long_question\<rparr>],
             createdAt = 0, lastAccess = 1, packetId = ''p1''\<rparr>"
  show total: "getTotalTokens long_session
     [\<lparr>role = ''system'', content = ''S''\<rparr>, \<lparr>role = ''user'', content = long_question\<rparr>]
     = 5515"
    by (simp add: getTotalTokens_def long_session_costs)
  show "trimToContextWindow long_session
     [\<lparr>role = ''system'', content = ''S''\<rparr>, \<lparr>role = ''user'', content = long_question\<rparr>]
     = [\<lparr>role = ''system'', content = ''S''\<rparr>]"
    by (simp add: trimToContextWindow_def long_session_costs long_session_fields Let_def)
  have stored: "sessions long_session ''p1'' = Some ?s" by (simp add: long_session_fields)
  have live: "\<not> 2 - lastAccess ?s > ttl long_session" by (simp add: long_session_fields)
  show "getMessages long_session 2 ''p1'' =
     (Some [\<lparr>role = ''system'', content = ''S''\<rparr>, \<lparr>role = ''user'', content = long_question\<rparr>],
      long_session)"
    using getMessages_live [OF stored live] total by (simp add: long_session_fields)
qed

theorem read_equals_trim_counterexample:
  "fst (getMessages long_session 2 ''p1'')
     = Some [\<lparr>role = ''system'', content = ''S''\<rparr>, \<lparr>role = ''user'', content = long_question\<rparr>]
   \<and> trimToContextWindow long_session
        [\<lparr>role = ''system'', content = ''S''\<rparr>, \<lparr>role = ''user'', content = long_question\<rparr>]
     = [\<lparr>role = ''system'', content = ''S''\<rparr>]
   \<and> getTotalTokens long_session
        [\<lparr>role = ''system'', content = ''S''\<rparr>, \<lparr>role = ''user'', content = long_question\<rparr>]
     = 5515
   \<and> maxContextTokens long_session - 500 = 5500"
  by (simp add: long_session_read long_session_fields)

text \<open>
  Two instances. The example history costs 710 tokens in a window of 610: the read
  returns its trimmed form, stores it, and the trimmed form costs at most 110. The
  history with the long question costs 5515 tokens in a window of 6000: the read
  returns it whole and leaves the manager as it was, above 6000 - 500.
\<close>

theorem read_trims_only_above_window_witness:
  "sessions small_store ''p1'' =
     Some \<lparr>messages = small_history, createdAt = 0, lastAccess = 0, packetId = ''p1''\<rparr>
   \<and> \<not> 5 - lastAccess \<lparr>messages = small_history, createdAt = 0, lastAccess = 0,
                          packetId = ''p1''\<rparr> > ttl small_store
   \<and> getTotalTokens small_store small_history > maxContextTokens small_store
   \<and> getMessages small_store 5 ''p1'' =
        (Some (trimToContextWindow small_store small_history),
         small_store\<lparr>sessions := (sessions small_store)(''p1'' \<mapsto>
            \<lparr>messages = trimToContextWindow small_store small_history,
             createdAt = 0, lastAccess = 0, packetId = ''p1''\<rparr>)\<rparr>)
   \<and> getTotalTokens small_store (trimToContextWindow small_store small_history) \<le> 110
   \<and> sessions long_session ''p1'' =
        Some \<lparr>messages = [\<lparr>role = ''system'', content = ''S''\<rparr>,
                           \<lparr>role = ''user'', content = long_question\<rparr>],
              createdAt = 0, lastAccess = 1, packetId = ''p1''\<rparr>
   \<and> \<not> 2 - lastAccess \<lparr>messages = [\<lparr>role = ''system'', content = ''S''\<rparr>,
                                       \<lparr>role = ''user'', content = long_question\<rparr>],
                          createdAt = 0, lastAccess = 1, packetId = ''p1''\<rparr> > ttl long_session
   \<and> getTotalTokens long_session
        [\<lparr>role = ''system'', content = ''S''\<rparr>, \<lparr>role = ''user'', content = long_question\<rparr>]
        \<le> maxContextTokens long_session
   \<and> getMessages long_session 2 ''p1'' =
        (Some [\<lparr>role = ''system'', content = ''S''\<rparr>, \<lparr>role = ''user'', content = long_question\<rparr>],
         long_session)"
proof -
  let ?s = "\<lparr>messages = small_history, createdAt = 0, lastAccess = 0, packetId = ''p1''\<rparr>"
  have stored: "sessions small_store ''p1'' = Some ?s" by (simp add: small_store_fields)
  have live: "\<not> 5 - lastAccess ?s > ttl small_store" by (simp add: small_store_fields)
  have over: "getTotalTokens small_store (messages ?s) > maxContextTokens small_store"
    by (simp add: small_store_costs small_store_fields)
  have ne: "messages ?s \<noteq> []" by (simp add: small_history_def)
  have fits: "estimateTokens small_store (JSON_stringify (hd (messages ?s)))
                \<le> maxContextTokens small_store - 500"
    by (simp add: small_store_def estimateTokens_sessions_update small_history_anchor_cost
          small_manager_fields)
  have trimmed: "getMessages small_store 5 ''p1'' =
        (Some (trimToContextWindow small_store small_history),
         small_store\<lparr>sessions := (sessions small_store)(''p1'' \<mapsto>
            \<lparr>messages = trimToContextWindow small_store small_history,
             createdAt = 0, lastAccess = 0, packetId = ''p1''\<rparr>)\<rparr>)"
    and bound: "getTotalTokens small_store (trimToContextWindow small_store small_history) \<le> 110"
    using over ne fits read_trims_only_above_window [OF stored live]
    by (simp_all add: small_store_fields)
  let ?l = "\<lparr>messages = [\<lparr>role = ''system'', content = ''S''\<rparr>,
                          \<lparr>role = ''user'', content = long_question\<rparr>],
             createdAt = 0, lastAccess = 1, packetId = ''p1''\<rparr>"
  have stored': "sessions long_session ''p1'' = Some ?l" by (simp add: long_session_fields)
  have live': "\<not> 2 - lastAccess ?l > ttl long_session" by (simp add: long_session_fields)
  have under: "getTotalTokens long_session (messages ?l) \<le> maxContextTokens long_session"
    by (simp add: long_session_read long_session_fields)
  have whole: "getMessages long_session 2 ''p1'' = (Some (messages ?l), long_session)"
    using under read_trims_only_above_window [OF stored' live'] by blast
  show ?thesis
    using stored live over trimmed bound stored' live' under whole by simp
qed

lemma anchored_one_session: "anchored one_session"
  by (simp add: anchored_def one_session_fields)

lemma one_session_anchor:
  "anchor one_session ''p1'' = Some \<lparr>role = ''system'', content = ''S''\<rparr>"
  by (simp add: anchor_def one_session_fields)

lemma one_session_stays_live:
  "stays_live one_session ''p1''
     [(1, Append ''user'' ''hi''), (2, Read), (3, Append ''assistant'' ''ok'')]"
  by (simp add: getSession_def addMessage_def getMessages_def Let_def one_session_fields
        getTotalTokens_def estimateTokens_4 length_JSON_stringify length_quote_role
        quote_code_unit_def)

text \<open>
  An instance: an append, a read and another append on a live session leave its anchor
  the system message it was created with.
\<close>

theorem anchor_invariance_witness:
  "anchored one_session
   \<and> stays_live one_session ''p1'' [(1, Append ''user'' ''hi''), (2, Read), (3, Append ''assistant'' ''ok'')]
   \<and> anchor (foldl (step ''p1'') one_session
               [(1, Append ''user'' ''hi''), (2, Read), (3, Append ''assistant'' ''ok'')]) ''p1''
      = Some \<lparr>role = ''system'', content = ''S''\<rparr>"
  using anchored_one_session one_session_stays_live one_session_anchor
    anchor_invariance [OF anchored_one_session, of "''p1''"
      "[(1, Append ''user'' ''hi''), (2, Read), (3, Append ''assistant'' ''ok'')]"]
  by simp

section \<open>The switch to the chat prompt\<close>

lemma getMessages_ttl:
  "ttl (snd (getMessages m now pid)) = ttl m"
  by (simp add: getMessages_def getSession_def Let_def split: option.splits)

lemma addMessage_ttl:
  "ttl (snd (addMessage m now pid r c sp)) = ttl m"
  by (simp add: addMessage_def getSession_def createSession_def Let_def
        split: option.splits prod.splits)

text \<open>Writing the chat prompt at index 0 a second time changes nothing.\<close>

lemma assign_first_message_idem:
  "assign_first_message (assign_first_message m pid msg) pid msg = assign_first_message m pid msg"
  by (simp add: assign_first_message_def split: option.splits)

text \<open>
  What a follow-up question does to the anchor, whatever the session holds: the chat
  prompt becomes the anchor when the history the handler reads has exactly three
  messages, and the anchor stays what it was in every other case. So a session whose
  anchor is the chat prompt keeps it, and a session that does not hold three messages
  at its first follow-up question keeps the evaluation prompt.
\<close>

lemma chat_ask_request_anchor:
  assumes inv: "anchored m" and ttl: "0 \<le> ttl m"
    and read: "getMessages m now pid = (Some msgs, m1)"
    and pid: "pid \<noteq> []" and question: "js_trim question \<noteq> []"
  shows "anchor (snd (chat_ask_request m now pid question)) pid =
           Some (if length msgs = 3
                 then \<lparr>role = ''system'', content = js_trim CHAT_SYSTEM_PROMPT\<rparr>
                 else hd msgs)"
proof -
  let ?chat = "\<lparr>role = ''system'', content = js_trim CHAT_SYSTEM_PROMPT\<rparr>"
  let ?m2 = "if length msgs = 3 then assign_first_message m1 pid ?chat else m1"
  let ?a = "if length msgs = 3 then ?chat else hd msgs"
  have q: "question \<noteq> []" using question by (auto simp: js_trim_def)
  obtain s s1 where s: "sessions m pid = Some s" "sessions m1 pid = Some s1"
      "lastAccess s1 = lastAccess s" "messages s1 = msgs"
    using getMessages_keeps_stamps [OF read] by blast
  have live: "\<not> now - lastAccess s > ttl m"
    using getMessages_found [OF read] s(1) by auto
  have ttl1: "ttl m1 = ttl m" using getMessages_ttl [of m now pid] read by simp
  have inv1: "anchored m1" using anchored_getMessages [OF inv, of now pid] read by simp
  have ne: "msgs \<noteq> []" and sys: "role (hd msgs) = ''system''"
    using read_returns_anchor [OF inv read] by simp_all
  let ?s2 = "if length msgs = 3 then s1\<lparr>messages := msgs[0 := ?chat]\<rparr> else s1"
  have m2: "sessions ?m2 pid = Some ?s2" "ttl ?m2 = ttl m"
    using s(2,4) ttl1 by (simp_all add: assign_first_message_def)
  have inv2: "anchored ?m2"
  proof (cases "length msgs = 3")
    case True
    then have "messages (s1\<lparr>messages := msgs[0 := ?chat]\<rparr>) \<noteq> []"
      "role (hd (messages (s1\<lparr>messages := msgs[0 := ?chat]\<rparr>))) = ''system''"
      using ne by (simp_all add: hd_conv_nth)
    then show ?thesis
      using True s(2,4) anchored_update [OF inv1, of "s1\<lparr>messages := msgs[0 := ?chat]\<rparr>" pid]
      by (simp add: assign_first_message_def)
  next
    case False
    then show ?thesis using inv1 by simp
  qed
  have a2: "anchor ?m2 pid = Some ?a"
    using m2(1) s(4) ne by (auto simp: anchor_Some_iff hd_conv_nth)
  have live2: "fst (getSession ?m2 now pid) \<noteq> None"
    using getSession_live [OF m2(1), of now] live s(3) m2(2) by auto
  let ?m3 = "snd (addMessage ?m2 now pid ''user'' (js_trim question) None)"
  have a3: "anchor ?m3 pid = Some ?a"
    using anchor_step_live [OF inv2, of "(now, Append ''user'' (js_trim question))" pid] live2 a2
    by simp
  have inv3: "anchored ?m3" using inv2 by (rule anchored_addMessage)
  have stored3: "sessions ?m3 pid = Some (fst (addMessage ?m2 now pid ''user'' (js_trim question) None))"
    "lastAccess (fst (addMessage ?m2 now pid ''user'' (js_trim question) None)) = now"
    using addMessage_stored [of ?m2 now pid] by simp_all
  have ttl3: "ttl ?m3 = ttl m"
    using m2(2) addMessage_ttl [of ?m2 now pid] by simp
  have live3: "fst (getSession ?m3 now pid) \<noteq> None"
    using getSession_live [OF stored3(1), of now] stored3(2) ttl3 ttl by auto
  obtain sent m4 where r4: "getMessages ?m3 now pid = (sent, m4)" by (cases "getMessages ?m3 now pid")
  have a4: "anchor m4 pid = Some ?a"
    using anchor_step_live [OF inv3, of "(now, Read)" pid] live3 a3 r4 by simp
  have sent: "sent \<noteq> None"
    using live3 r4 by (auto simp: getMessages_def Let_def split: prod.splits option.splits if_splits)
  have "snd (chat_ask_request m now pid question) = m4"
    using pid q question read r4 sent
    by (auto simp: chat_ask_request_def Let_def split: prod.splits option.splits)
  then show ?thesis using a4 by simp
qed

lemma prompts_differ: "js_trim SYSTEM_PROMPT \<noteq> js_trim CHAT_SYSTEM_PROMPT"
  by code_simp

lemma evaluation_anchor_length:
  "length (concat (map quote_code_unit (js_trim SYSTEM_PROMPT))) = 1218"
  by code_simp

lemma chat_anchor_length:
  "length (concat (map quote_code_unit (js_trim CHAT_SYSTEM_PROMPT))) = 1260"
  by code_simp

lemmas run_simps =
  evaluate_request_def evaluate_response_def chat_ask_request_def assign_first_message_def
  getMessages_def getSession_def addMessage_def createSession_def Let_def
  getTotalTokens_def estimateTokens_4 length_JSON_stringify length_quote_role
  evaluation_anchor_length chat_anchor_length quote_code_unit_def

lemma evaluated_once_fields:
  "sessions evaluated_once =
     [''p1'' \<mapsto>
        \<lparr>messages = [\<lparr>role = ''system'', content = js_trim SYSTEM_PROMPT\<rparr>,
                     \<lparr>role = ''user'', content = ''Evaluate ONLY the TARGET PACKET.''\<rparr>,
                     \<lparr>role = ''assistant'', content = ''SEVERITY: 10''\<rparr>],
         createdAt = 0, lastAccess = 1, packetId = ''p1''\<rparr>]"
  "ttl evaluated_once = 3600000"
  "maxContextTokens evaluated_once = 6000" "charsPerToken evaluated_once = 4"
  by (simp_all add: evaluated_once_def fresh_manager_fields run_simps)

lemma evaluated_twice_fields:
  "sessions evaluated_twice =
     [''p1'' \<mapsto>
        \<lparr>messages = [\<lparr>role = ''system'', content = js_trim SYSTEM_PROMPT\<rparr>,
                     \<lparr>role = ''user'', content = ''Evaluate ONLY the TARGET PACKET.''\<rparr>,
                     \<lparr>role = ''assistant'', content = ''SEVERITY: 10''\<rparr>,
                     \<lparr>role = ''user'', content = ''Evaluate ONLY the TARGET PACKET.''\<rparr>,
                     \<lparr>role = ''assistant'', content = ''SEVERITY: 20''\<rparr>],
         createdAt = 0, lastAccess = 3, packetId = ''p1''\<rparr>]"
  "ttl evaluated_twice = 3600000"
  "maxContextTokens evaluated_twice = 6000" "charsPerToken evaluated_twice = 4"
  by (simp_all add: evaluated_twice_def evaluated_once_fields run_simps)

lemma js_trim_question: "js_trim ''Why?'' = ''Why?''"
  by (simp add: js_trim_def is_js_whitespace_def)

text \<open>
  After one evaluation the session holds three messages, and the first follow-up
  question replaces the evaluation prompt by the chat prompt before it goes to the model.
\<close>

lemma follow_up_after_one_evaluation:
  "fst (chat_ask_request evaluated_once 4 ''p1'' ''Why?'') =
     CallModel [\<lparr>role = ''system'', content = js_trim CHAT_SYSTEM_PROMPT\<rparr>,
                \<lparr>role = ''user'', content = ''Evaluate ONLY the TARGET PACKET.''\<rparr>,
                \<lparr>role = ''assistant'', content = ''SEVERITY: 10''\<rparr>,
                \<lparr>role = ''user'', content = ''Why?''\<rparr>]"
  by (simp add: evaluated_once_fields js_trim_question run_simps)

text \<open>
  C7. The anchor is to change from the evaluation prompt to the chat prompt at the first
  follow-up question. The chat handler does so only when the session holds exactly three
  messages. After a second evaluation of the same packet the session holds five: the
  first follow-up question goes to the model under the evaluation prompt, and the
  evaluation prompt stays the anchor of the session.
\<close>

theorem follow_up_after_second_evaluation:
  "fst (chat_ask_request evaluated_twice 4 ''p1'' ''Why?'') =
     CallModel [\<lparr>role = ''system'', content = js_trim SYSTEM_PROMPT\<rparr>,
                \<lparr>role = ''user'', content = ''Evaluate ONLY the TARGET PACKET.''\<rparr>,
                \<lparr>role = ''assistant'', content = ''SEVERITY: 10''\<rparr>,
                \<lparr>role = ''user'', content = ''Evaluate ONLY the TARGET PACKET.''\<rparr>,
                \<lparr>role = ''assistant'', content = ''SEVERITY: 20''\<rparr>,
                \<lparr>role = ''user'', content = ''Why?''\<rparr>]
   \<and> anchor (snd (chat_ask_request evaluated_twice 4 ''p1'' ''Why?'')) ''p1''
       = Some \<lparr>role = ''system'', content = js_trim SYSTEM_PROMPT\<rparr>
   \<and> js_trim SYSTEM_PROMPT \<noteq> js_trim CHAT_SYSTEM_PROMPT"
  by (simp add: evaluated_twice_fields js_trim_question prompts_differ anchor_def run_simps)

end
